theory Spec2Isabelle
  imports Complex_Main
begin

section \<open>H3RNNSeqClassifier: a wrapper around a bucketing LSTM runtime\<close>

text \<open>
  The development embeds \<^verbatim>\<open>h3mlcore/models/H3RNNSeqClassifier.py\<close>. The class
  holds hyperparameters and drives three collaborators that are not part of the file:
  the numeric framework's bucketing module (\<^verbatim>\<open>mx.module.BucketingModule\<close>), its
  symbol constructors and the bucketing iterator \<^verbatim>\<open>BucketSeqLabelIter\<close>. The
  collaborators are modelled by what the wrapper hands to them and reads from them:
  the module by the ordered list of calls it receives, the symbols by a term datatype,
  and the iterator by the batches it yields. What the file system and the framework
  answer (whether a file exists, whether loading raises) is an explicit argument.
\<close>

subsection \<open>Python values\<close>

datatype py_error =
    TypeError string
  | AttributeError string
  | IndexError string
  | ValueError string
  | IOError string
  | OtherError string

text \<open>\<^verbatim>\<open>str\<close> on an integer: decimal digits, a leading minus sign for negatives.\<close>

function str_nat :: "nat \<Rightarrow> string" where
  "str_nat n = (if n < 10 then [''0123456789'' ! n]
                else str_nat (n div 10) @ [''0123456789'' ! (n mod 10)])"
  by pat_completeness auto
termination
  by (relation "measure (\<lambda>n. n)") auto

declare str_nat.simps [simp del]

definition str_int :: "int \<Rightarrow> string" where
  "str_int i = (if i < 0 then CHR ''-'' # str_nat (nat (- i)) else str_nat (nat i))"

text \<open>\<^verbatim>\<open>range(n)\<close>: the integers from 0 up to n - 1, none when n is not positive.\<close>

definition py_range :: "int \<Rightarrow> int list" where
  "py_range n = [0..n - 1]"

subsection \<open>Logging, metrics, devices\<close>

datatype level = DEBUG | INFO | WARNING | ERROR

text \<open>
  A log entry is a logging call: its level and its message. Arguments that the
  framework supplies (a metric's name and value) stay as their format directive.
\<close>

type_synonym log_entry = "level \<times> string"

datatype metric_obj = Accuracy | CrossEntropy | TopKAccuracy nat

datatype device = mx_gpu int | mx_cpu int

text \<open>\<^verbatim>\<open>self.ctx\<close> is a list of devices, or the single device \<^verbatim>\<open>mx.cpu(0)\<close>.\<close>

datatype mx_context = CtxList "device list" | CtxOne device

subsection \<open>Batches and the bucketing iterator\<close>

record batch =
  bucket_key :: int
  data :: "int list list"
  label :: "int list"

type_synonym shape_desc = "string \<times> int list"

text \<open>
  Modelled from the spec: \<^verbatim>\<open>h3mlcore.io.BucketSeqLabelIter\<close> is not among the
  sources. The spec gives its contract as reset(), sequential iteration yielding
  batches, \<^verbatim>\<open>default_bucket_key\<close> and the \<^verbatim>\<open>provide_data\<close> /
  \<^verbatim>\<open>provide_label\<close> shape descriptors. An iterator is therefore the three
  attributes and \<open>batches\<close>, the batches one pass after \<^verbatim>\<open>reset()\<close> yields, in
  order.
\<close>

record bucket_iter =
  default_bucket_key :: int
  provide_data :: "shape_desc list"
  provide_label :: "shape_desc list"
  batches :: "batch list"

text \<open>An argument of \<^verbatim>\<open>initialize\<close>: a bucketing iterator or an object of another type.\<close>

datatype py_object = BucketSeqLabelIter_obj bucket_iter | Other_obj string

subsection \<open>The bucketing module as the wrapper sees it\<close>

datatype call =
    Bind "shape_desc list" "shape_desc list"
  | LoadParams string
  | InitParams
  | InitOptimizer string "(string \<times> real) list"
  | Forward batch "bool option"
  | GetOutputs
  | Backward
  | Update
  | Score bucket_iter metric_obj
  | SaveParams string

text \<open>
  Where the parameters of the module come from: nothing yet (binding allocates them
  only), a parameters file, or \<^verbatim>\<open>init_params()\<close>.
\<close>

datatype params_state = Uninitialized | LoadedFrom string | FreshlyInitialized

text \<open>
  The module keeps the arguments of its constructor (the symbol generator is the
  wrapper's own \<^verbatim>\<open>_sym_gen\<close>, below), the calls it received, oldest first, and the
  origin of its parameters.
\<close>

record bucketing_module =
  m_default_bucket_key :: int
  m_context :: mx_context
  calls :: "call list"
  params :: params_state

definition BucketingModule :: "int \<Rightarrow> mx_context \<Rightarrow> bucketing_module" where
  "BucketingModule key c =
     \<lparr>m_default_bucket_key = key, m_context = c, calls = [], params = Uninitialized\<rparr>"

definition invoke :: "call \<Rightarrow> bucketing_module \<Rightarrow> bucketing_module" where
  "invoke c m = m\<lparr>calls := calls m @ [c]\<rparr>"

subsection \<open>The classifier\<close>

text \<open>
  The attributes of an instance. \<open>metric\<close> is \<open>None\<close> while the attribute does not
  exist, \<open>model\<close> is \<open>None\<close> while it holds Python's \<^verbatim>\<open>None\<close>. \<open>logger\<close> is the
  list of logging calls made so far and \<open>log_files\<close> the two handler files of a
  loaded logging configuration.
\<close>

record classifier =
  logger :: "log_entry list"
  log_files :: "(string \<times> string) option"
  num_hidden :: int
  num_embed :: int
  input_dim :: "int option"
  lstm_layer :: int
  num_classes :: int
  params_file :: string
  learning_rate :: real
  optimizer :: string
  metric :: "metric_obj option"
  ctx :: mx_context
  model :: "bucketing_module option"

text \<open>
  What the body of the constructor's \<^verbatim>\<open>try\<close> does: it configures logging, raises
  \<^verbatim>\<open>IOError\<close> (caught: basic logging and a warning), or raises something else,
  which the constructor lets through.
\<close>

datatype log_setup = Configured | ConfigIOError | ConfigRaises py_error

definition init ::
  "log_setup \<Rightarrow> int \<Rightarrow> int \<Rightarrow> int option \<Rightarrow> int \<Rightarrow> int \<Rightarrow> string \<Rightarrow> real \<Rightarrow> string \<Rightarrow> string
    \<Rightarrow> int list \<Rightarrow> int list \<Rightarrow> string \<Rightarrow> string \<Rightarrow> bool \<Rightarrow> py_error + classifier" where
  "init env num_hidden' num_embed' input_dim' lstm_layer' num_classes' params_file'
        learning_rate' optimizer' metric' use_gpus use_cpus logging_root_dir logging_config
        verbose =
     (let logging_path = logging_root_dir @ ''H3RNNSeqClassifier'' @ ''/'' in
      case env of
        ConfigRaises e \<Rightarrow> Inl e
      | _ \<Rightarrow>
        Inr \<lparr>logger =
               (if env = ConfigIOError
                then [(WARNING, ''logging config file: '' @ logging_config @ '' does not exist.'')]
                else []),
             log_files =
               (if env = ConfigIOError then None
                else Some (logging_path @ ''info.log'', logging_path @ ''error.log'')),
             num_hidden = num_hidden',
             num_embed = num_embed',
             input_dim = input_dim',
             lstm_layer = lstm_layer',
             num_classes = num_classes',
             params_file = params_file',
             learning_rate = learning_rate',
             optimizer = optimizer',
             metric =
               (if metric' = ''acc'' then Some Accuracy
                else if metric' = ''cross-entropy'' then Some CrossEntropy
                else if metric' = ''topk'' then Some (TopKAccuracy 3)
                else None),
             ctx =
               (if use_gpus \<noteq> [] then CtxList (map mx_gpu use_gpus)
                else if use_cpus \<noteq> [] then CtxList (map mx_cpu use_cpus)
                else CtxOne (mx_cpu 0)),
             model = None\<rparr>)"

subsection \<open>The symbol generator\<close>

text \<open>
  The graph is the term the framework's constructors build. \<open>LSTMUnroll p h n x\<close> is the
  output sequence of \<^verbatim>\<open>LSTMCell(prefix=p, num_hidden=h).unroll(n, inputs=x)\<close>, and
  \<open>LastStep\<close> is \<^verbatim>\<open>outputs[-1]\<close>.
\<close>

datatype symbol =
    Variable string
  | Embedding symbol "int option" int string
  | LSTMUnroll string int int symbol
  | LastStep symbol
  | FullyConnected symbol int string
  | SoftmaxOutput symbol symbol string

definition sym_gen :: "classifier \<Rightarrow> int \<Rightarrow> symbol \<times> string list \<times> string list" where
  "sym_gen self seq_len =
     (let data' = Variable ''data'';
          label' = Variable ''softmax_label'';
          embeds = Embedding data' (input_dim self) (num_embed self) ''embed'';
          outputs = LSTMUnroll ''lstm_1_'' (num_hidden self) seq_len embeds;
          outputs = fold (\<lambda>i outs. LSTMUnroll (''lstm_'' @ str_int (i + 2) @ ''_'')
                                      (num_hidden self) seq_len outs)
                         (py_range (lstm_layer self - 1)) outputs;
          pred = FullyConnected (LastStep outputs) (num_classes self) ''logits'';
          pred = SoftmaxOutput pred label' ''softmax''
      in (pred, [''data''], [''softmax_label'']))"

text \<open>The recurrent cells of a graph, by prefix, innermost first.\<close>

fun lstm_cells :: "symbol \<Rightarrow> string list" where
  "lstm_cells (Variable _) = []"
| "lstm_cells (Embedding d _ _ _) = lstm_cells d"
| "lstm_cells (LSTMUnroll p _ _ x) = lstm_cells x @ [p]"
| "lstm_cells (LastStep s) = lstm_cells s"
| "lstm_cells (FullyConnected s _ _) = lstm_cells s"
| "lstm_cells (SoftmaxOutput s l _) = lstm_cells s @ lstm_cells l"

subsection \<open>initialize\<close>

text \<open>
  \<^verbatim>\<open>except (IOError, ValueError)\<close>: the two exception classes the handler around
  \<^verbatim>\<open>load_params\<close> catches.
\<close>

fun caught_on_load :: "py_error \<Rightarrow> bool" where
  "caught_on_load (IOError _) = True"
| "caught_on_load (ValueError _) = True"
| "caught_on_load _ = False"

definition log_call :: "level \<Rightarrow> string \<Rightarrow> classifier \<Rightarrow> classifier" where
  "log_call lv msg self = self\<lparr>logger := logger self @ [(lv, msg)]\<rparr>"

text \<open>
  \<open>file_exists\<close> is the answer of \<^verbatim>\<open>os.path.isfile(self.params_file)\<close> and
  \<open>load_raises\<close> the exception \<^verbatim>\<open>load_params\<close> raises, if any. The result is the
  outcome of the call and the instance afterwards; the statements after
  \<^verbatim>\<open>raise TypeError\<close> are never run and have no counterpart.
\<close>

definition init_optimizer :: "classifier \<Rightarrow> bucketing_module \<Rightarrow> (py_error + unit) \<times> classifier" where
  "init_optimizer self m =
     (Inr (),
      self\<lparr>model := Some (invoke (InitOptimizer (optimizer self)
                                     [(''learning_rate'', learning_rate self)]) m)\<rparr>)"

definition initialize ::
  "bool \<Rightarrow> py_error option \<Rightarrow> classifier \<Rightarrow> py_object \<Rightarrow> (py_error + unit) \<times> classifier" where
  "initialize file_exists load_raises self data_iter =
     (case data_iter of
        Other_obj _ \<Rightarrow>
          (Inl (TypeError ''Data iterator for this model should be of type BucketSeqLabelIter.''),
           self)
      | BucketSeqLabelIter_obj it \<Rightarrow>
          (let m = BucketingModule (default_bucket_key it) (ctx self);
               m = invoke (Bind (provide_data it) (provide_label it)) m
           in if file_exists then
                (let m = invoke (LoadParams (params_file self)) m in
                 case load_raises of
                   None \<Rightarrow>
                     init_optimizer
                       (log_call INFO (''LSTM model parameters loaded from file: ''
                                        @ params_file self @ ''.'') self)
                       (m\<lparr>params := LoadedFrom (params_file self)\<rparr>)
                 | Some e \<Rightarrow>
                     if caught_on_load e then
                       init_optimizer
                         (log_call WARNING
                            ''Parameters file does not exist or not valid! please check the file.''
                            self)
                         m
                     else (Inl e, self\<lparr>model := Some m\<rparr>))
              else
                init_optimizer (log_call INFO ''LSTM Model initialized.'' self)
                  ((invoke InitParams m)\<lparr>params := FreshlyInitialized\<rparr>)))"

subsection \<open>step and train_epochs\<close>

definition step :: "classifier \<Rightarrow> batch \<Rightarrow> (py_error + unit) \<times> classifier" where
  "step self data_batch =
     (case model self of
        None \<Rightarrow> (Inl (AttributeError ''NoneType object has no attribute forward''), self)
      | Some m \<Rightarrow>
          (let m = invoke (Forward data_batch None) m;
               m = invoke GetOutputs m;
               self = log_call DEBUG ''train step cross-entropy: %f'' self;
               m = invoke Backward m;
               m = invoke Update m
           in (Inr (), self\<lparr>model := Some m\<rparr>)))"

text \<open>\<^verbatim>\<open>for batch in train_data: self.step(data_batch=batch)\<close>\<close>

fun step_all :: "classifier \<Rightarrow> batch list \<Rightarrow> (py_error + unit) \<times> classifier" where
  "step_all self [] = (Inr (), self)"
| "step_all self (b # bs) =
     (case step self b of
        (Inl e, self') \<Rightarrow> (Inl e, self')
      | (Inr _, self') \<Rightarrow> step_all self' bs)"

text \<open>
  The evaluation at the end of an epoch. An omitted \<^verbatim>\<open>eval_data\<close> is \<open>None\<close>, which
  is false; an iterator object is true. Reading \<^verbatim>\<open>self.model.score\<close> fails on a
  missing module and reading \<^verbatim>\<open>self.metric\<close> on a missing attribute.
\<close>

definition evaluate :: "classifier \<Rightarrow> bucket_iter option \<Rightarrow> int \<Rightarrow> (py_error + unit) \<times> classifier" where
  "evaluate self eval_data e =
     (case eval_data of
        None \<Rightarrow> (Inr (), self)
      | Some ev \<Rightarrow>
          (case model self of
             None \<Rightarrow> (Inl (AttributeError ''NoneType object has no attribute score''), self)
           | Some m \<Rightarrow>
               (case metric self of
                  None \<Rightarrow> (Inl (AttributeError ''H3RNNSeqClassifier has no attribute metric''), self)
                | Some mt \<Rightarrow>
                    (Inr (),
                     log_call INFO (''Training epoch '' @ str_int (e + 1) @ '' -- Evaluate %s: %f'')
                       (self\<lparr>model := Some (invoke (Score ev mt) m)\<rparr>)))))"

fun train_loop ::
  "classifier \<Rightarrow> bucket_iter \<Rightarrow> bucket_iter option \<Rightarrow> int list \<Rightarrow> (py_error + unit) \<times> classifier" where
  "train_loop self train_data eval_data [] = (Inr (), self)"
| "train_loop self train_data eval_data (e # es) =
     (case step_all self (batches train_data) of
        (Inl err, self') \<Rightarrow> (Inl err, self')
      | (Inr _, self') \<Rightarrow>
          (case evaluate self' eval_data e of
             (Inl err, self'') \<Rightarrow> (Inl err, self'')
           | (Inr _, self'') \<Rightarrow> train_loop self'' train_data eval_data es))"

definition train_epochs ::
  "classifier \<Rightarrow> bucket_iter \<Rightarrow> bucket_iter option \<Rightarrow> int \<Rightarrow> (py_error + unit) \<times> classifier" where
  "train_epochs self train_data eval_data num_epochs =
     train_loop self train_data eval_data (py_range num_epochs)"

text \<open>Whether a call is the module's scoring routine.\<close>

fun is_score :: "call \<Rightarrow> bool" where
  "is_score (Score _ _) = True"
| "is_score _ = False"

subsection \<open>save\<close>

text \<open>\<^verbatim>\<open>if epoch:\<close> on \<open>None\<close> or an integer: false for \<open>None\<close> and for 0.\<close>

definition save :: "classifier \<Rightarrow> string \<Rightarrow> int option \<Rightarrow> (py_error + unit) \<times> classifier" where
  "save self path epoch =
     (let path = (case epoch of
                    None \<Rightarrow> path
                  | Some e \<Rightarrow> if e \<noteq> 0 then path @ ''-'' @ str_int e else path)
      in case model self of
           None \<Rightarrow> (Inl (AttributeError ''NoneType object has no attribute save_params''), self)
         | Some m \<Rightarrow>
             (Inr (),
              log_call INFO (''Network parameters saved in '' @ path)
                (self\<lparr>model := Some (invoke (SaveParams path) m)\<rparr>)))"

text \<open>The paths the module was asked to save parameters to, oldest first.\<close>

fun saved_paths :: "call list \<Rightarrow> string list" where
  "saved_paths [] = []"
| "saved_paths (SaveParams p # cs) = p # saved_paths cs"
| "saved_paths (_ # cs) = saved_paths cs"

subsection \<open>predict\<close>

text \<open>
  \<^verbatim>\<open>np.argmax\<close> of a row: the first position of the greatest entry; it raises on an
  empty row. Scores are the entries of a linear order with a zero.
\<close>

fun argmax_scan :: "'a::linorder \<Rightarrow> nat \<Rightarrow> nat \<Rightarrow> 'a list \<Rightarrow> nat" where
  "argmax_scan best pos i [] = pos"
| "argmax_scan best pos i (x # xs) =
     (if best < x then argmax_scan x i (Suc i) xs else argmax_scan best pos (Suc i) xs)"

definition np_argmax :: "'a::linorder list \<Rightarrow> py_error + nat" where
  "np_argmax row =
     (case row of
        [] \<Rightarrow> Inl (ValueError ''attempt to get argmax of an empty sequence'')
      | x # xs \<Rightarrow> Inr (argmax_scan x 0 1 xs))"

text \<open>
  An index into an array of length \<open>n\<close>: negative indices count from the end, anything
  outside \<open>-n \<dots> n - 1\<close> raises.
\<close>

definition py_index :: "nat \<Rightarrow> int \<Rightarrow> py_error + nat" where
  "py_index n i =
     (if 0 \<le> i \<and> i < int n then Inr (nat i)
      else if - int n \<le> i \<and> i < 0 then Inr (nat (int n + i))
      else Inl (IndexError ''index is out of bounds''))"

text \<open>
  \<^verbatim>\<open>scores[idx] = logits\<close>: the row is replaced by a value of its own length, filled
  with the single entry of a value of length one, and anything else raises.
\<close>

definition assign_row :: "'a list \<Rightarrow> 'a list \<Rightarrow> py_error + 'a list" where
  "assign_row old new =
     (if length new = length old then Inr new
      else if length new = 1 then Inr (replicate (length old) (hd new))
      else Inl (ValueError ''could not broadcast input array''))"

text \<open>\<^verbatim>\<open>for logits, idx in zip(out, batch.label[0].asnumpy())\<close>, on the two arrays.\<close>

fun scatter ::
  "int list \<times> ('a::linorder) list list \<Rightarrow> ('a list \<times> int) list
    \<Rightarrow> py_error + (int list \<times> 'a list list)" where
  "scatter acc [] = Inr acc"
| "scatter (labels, scores) ((logits, idx) # rest) =
     (case np_argmax logits of
        Inl e \<Rightarrow> Inl e
      | Inr a \<Rightarrow>
          (case py_index (length labels) idx of
             Inl e \<Rightarrow> Inl e
           | Inr k \<Rightarrow>
               (case py_index (length scores) idx of
                  Inl e \<Rightarrow> Inl e
                | Inr k' \<Rightarrow>
                    (case assign_row (scores ! k') logits of
                       Inl e \<Rightarrow> Inl e
                     | Inr row \<Rightarrow> scatter (labels[k := int a], scores[k' := row]) rest))))"

text \<open>
  The loop over the batches. \<open>outputs b\<close> is what the bound module answers for batch
  \<open>b\<close>: \<^verbatim>\<open>get_outputs()[0].asnumpy()\<close> after \<^verbatim>\<open>forward(b, is_train=False)\<close>, one
  row per sample. Without a module the first batch raises.
\<close>

fun predict_loop ::
  "(batch \<Rightarrow> ('a::linorder) list list) \<Rightarrow> bucketing_module option \<Rightarrow> int list \<times> 'a list list
    \<Rightarrow> batch list \<Rightarrow> py_error + (int list \<times> 'a list list)" where
  "predict_loop outputs m acc [] = Inr acc"
| "predict_loop outputs m acc (b # bs) =
     (case m of
        None \<Rightarrow> Inl (AttributeError ''NoneType object has no attribute forward'')
      | Some _ \<Rightarrow>
          (case scatter acc (zip (outputs b) (label b)) of
             Inl e \<Rightarrow> Inl e
           | Inr acc' \<Rightarrow> predict_loop outputs m acc' bs))"

text \<open>
  \<open>new_iter\<close> is the constructor \<^verbatim>\<open>BucketSeqLabelIter(test_data, sample_ids,
  batch_size=batch_size)\<close>, which may raise. \<^verbatim>\<open>np.zeros\<close> refuses a negative
  dimension. The identifiers a batch carries are read as integers.
\<close>

definition predict ::
  "(batch \<Rightarrow> ('a::{linorder,zero}) list list)
    \<Rightarrow> (int list list \<Rightarrow> int list \<Rightarrow> int \<Rightarrow> py_error + bucket_iter)
    \<Rightarrow> classifier \<Rightarrow> int list list \<Rightarrow> int \<Rightarrow> py_error + (int list \<times> 'a list list)" where
  "predict outputs new_iter self test_data batch_size =
     (let sample_ids = py_range (int (length test_data));
          labels = replicate (length test_data) (0::int)
      in if num_classes self < 0 then Inl (ValueError ''negative dimensions are not allowed'')
         else
           (let scores = replicate (length test_data) (replicate (nat (num_classes self)) 0)
            in case new_iter test_data sample_ids batch_size of
                 Inl e \<Rightarrow> Inl e
               | Inr tt_iter \<Rightarrow> predict_loop outputs (model self) (labels, scores) (batches tt_iter)))"

text \<open>
  Modelled from the spec: \<^verbatim>\<open>h3mlcore.io.BucketSeqLabelIter\<close> is missing. The spec
  has it group the supplied sequences into buckets and batches, each batch carrying
  the labels of its samples, so that buckets may reorder samples. \<open>regroups ids it\<close>
  is that contract as far as \<^verbatim>\<open>predict\<close> relies on it: no batch is empty, and every
  label a batch carries is one of the labels supplied to the constructor.
\<close>

definition regroups :: "int list \<Rightarrow> bucket_iter \<Rightarrow> bool" where
  "regroups ids it =
     list_all (\<lambda>b. label b \<noteq> [] \<and> list_all (\<lambda>i. i \<in> set ids) (label b)) (batches it)"

text \<open>The rows and identifiers one pass over the iterator hands to the scatter step.\<close>

definition yielded :: "(batch \<Rightarrow> 'a list list) \<Rightarrow> bucket_iter \<Rightarrow> ('a list \<times> int) list" where
  "yielded outputs it = concat (map (\<lambda>b. zip (outputs b) (label b)) (batches it))"

text \<open>The row yielded last with identifier \<open>i\<close>, if there is one.\<close>

fun last_row :: "int \<Rightarrow> ('a list \<times> int) list \<Rightarrow> 'a list option" where
  "last_row i [] = None"
| "last_row i ((row, idx) # rest) =
     (case last_row i rest of
        Some r \<Rightarrow> Some r
      | None \<Rightarrow> if idx = i then Some row else None)"

subsection \<open>Observations and concrete instances\<close>

text \<open>The calls the instance's module has received; none without a module.\<close>

definition module_calls :: "classifier \<Rightarrow> call list" where
  "module_calls self = (case model self of None \<Rightarrow> [] | Some m \<Rightarrow> calls m)"

text \<open>
  An instance as the constructor's defaults leave it (with a vocabulary of 1000 and a
  parameters file name), an iterator over four samples in two buckets, and the
  instance after \<^verbatim>\<open>initialize\<close> on that iterator with no parameters file on disk.
\<close>

definition default_clf :: classifier where
  "default_clf =
     \<lparr>logger = [],
      log_files = Some (''logs/H3RNNSeqClassifier/info.log'', ''logs/H3RNNSeqClassifier/error.log''),
      num_hidden = 256, num_embed = 128, input_dim = Some 1000, lstm_layer = 1,
      num_classes = 2, params_file = ''lstm.params'', learning_rate = 1 / 10,
      optimizer = ''sgd'', metric = Some Accuracy, ctx = CtxOne (mx_cpu 0), model = None\<rparr>"

definition demo_iter :: bucket_iter where
  "demo_iter =
     \<lparr>default_bucket_key = 3,
      provide_data = [(''data'', [2, 3])],
      provide_label = [(''softmax_label'', [2])],
      batches = [\<lparr>bucket_key = 3, data = [[7, 8, 9], [4, 5, 0]], label = [2, 0]\<rparr>,
                 \<lparr>bucket_key = 2, data = [[1, 2], [3, 0]], label = [1, 3]\<rparr>]\<rparr>"

definition bound_clf :: classifier where
  "bound_clf = snd (initialize False None default_clf (BucketSeqLabelIter_obj demo_iter))"

text \<open>
  Four samples for \<^verbatim>\<open>predict\<close>, whose identifiers 0 to 3 are the labels
  \<open>demo_iter\<close> carries (bucketing has reordered them), a stand-in for the module's
  output with two scores per sample, and an iterator that yields the first batch
  only.
\<close>

definition demo_data :: "int list list" where
  "demo_data = [[4, 5], [1, 2], [7, 8, 9], [3]]"

definition demo_outputs :: "batch \<Rightarrow> int list list" where
  "demo_outputs b = map (\<lambda>sample. [sum_list sample, 10]) (data b)"

definition short_iter :: bucket_iter where
  "short_iter = demo_iter\<lparr>batches := take 1 (batches demo_iter)\<rparr>"

section \<open>Properties\<close>

subsection \<open>Auxiliary facts\<close>

lemma str_int_5: "str_int 5 = ''5''"
  by (simp add: str_int_def str_nat.simps)

lemma length_py_range: "length (py_range n) = nat n"
  by (simp add: py_range_def)

lemma default_clf_constructed:
  "init Configured 256 128 (Some 1000) 1 2 ''lstm.params'' (1 / 10) ''sgd'' ''acc'' [] []
     ''logs/'' ''configs/logging.yaml'' False = Inr default_clf"
  by (simp add: init_def default_clf_def)

lemma model_bound_clf:
  "model bound_clf =
     Some \<lparr>m_default_bucket_key = 3, m_context = CtxOne (mx_cpu 0),
           calls = [Bind [(''data'', [2, 3])] [(''softmax_label'', [2])], InitParams,
                    InitOptimizer ''sgd'' [(''learning_rate'', 1 / 10)]],
           params = FreshlyInitialized\<rparr>"
  by (simp add: bound_clf_def initialize_def default_clf_def demo_iter_def
      BucketingModule_def invoke_def init_optimizer_def log_call_def)

lemma lstm_cells_fold:
  "lstm_cells (fold (\<lambda>i outs. LSTMUnroll (f i) h n outs) xs base) = lstm_cells base @ map f xs"
  by (induction xs arbitrary: base) simp_all

lemma saved_paths_append: "saved_paths (xs @ ys) = saved_paths xs @ saved_paths ys"
  by (induction xs rule: saved_paths.induct) simp_all

lemma step_all_append:
  "step_all self (xs @ ys) =
     (case step_all self xs of (Inl e, s) \<Rightarrow> (Inl e, s) | (Inr _, s) \<Rightarrow> step_all s ys)"
  by (induction xs arbitrary: self) (auto split: prod.splits sum.splits)

lemma train_loop_without_eval:
  "train_loop self td None es = step_all self (concat (replicate (length es) (batches td)))"
proof (induction es arbitrary: self)
  case Nil
  show ?case by simp
next
  case (Cons e es)
  show ?case
    by (simp add: step_all_append evaluate_def Cons.IH split: prod.splits sum.splits)
qed

lemma step_all_bound:
  "model self = Some m \<Longrightarrow>
     fst (step_all self bs) = Inr () \<and>
     module_calls (snd (step_all self bs)) =
       calls m @ concat (map (\<lambda>b. [Forward b None, GetOutputs, Backward, Update]) bs)"
proof (induction bs arbitrary: self m)
  case Nil
  then show ?case by (simp add: module_calls_def)
next
  case (Cons b bs)
  let ?m = "m\<lparr>calls := calls m @ [Forward b None, GetOutputs, Backward, Update]\<rparr>"
  let ?self = "(log_call DEBUG ''train step cross-entropy: %f'' self)\<lparr>model := Some ?m\<rparr>"
  have st: "step self b = (Inr (), ?self)"
    using Cons.prems by (simp add: step_def invoke_def Let_def log_call_def)
  have "model ?self = Some ?m" by simp
  from Cons.IH [OF this] show ?case by (simp add: st)
qed

lemma filter_score_steps:
  "filter is_score (concat (map (\<lambda>b. [Forward b None, GetOutputs, Backward, Update]) bs)) = []"
  by (induction bs) simp_all

subsection \<open>The constructor\<close>

text \<open>
  C5. A metric identifier other than \<^verbatim>\<open>acc\<close>, \<^verbatim>\<open>cross-entropy\<close> and \<^verbatim>\<open>topk\<close>
  passes through the constructor silently: provided the logging set-up itself did not
  fail with something other than the caught \<^verbatim>\<open>IOError\<close>, the constructor returns
  an instance, and that instance has no \<^verbatim>\<open>metric\<close> attribute (no default is chosen).
\<close>

theorem unknown_metric_left_unset:
  assumes "metric_id \<notin> {''acc'', ''cross-entropy'', ''topk''}"
      and "env \<in> {Configured, ConfigIOError}"
  shows "\<exists>self. init env n_hidden n_embed in_dim layers classes pfile lrate optim metric_id
                   gpus cpus log_root log_cfg vb = Inr self
               \<and> metric self = None"
  using assms by (auto simp add: init_def)

text \<open>The identifier \<^verbatim>\<open>accuracy\<close>, spelled out, is one of the unrecognised ones.\<close>

theorem unknown_metric_left_unset_witness:
  "''accuracy'' \<notin> {''acc'', ''cross-entropy'', ''topk''} \<and>
   Configured \<in> {Configured, ConfigIOError} \<and>
   (\<exists>self. init Configured 256 128 (Some 1000) 1 2 [] (1 / 10) ''sgd'' ''accuracy'' [] []
              ''logs/'' ''configs/logging.yaml'' False = Inr self
          \<and> metric self = None)"
  using unknown_metric_left_unset [of "''accuracy''" Configured 256 128 "Some 1000" 1 2 "[]"
      "1 / 10" "''sgd''" "[]" "[]" "''logs/''" "''configs/logging.yaml''" False]
  by simp

text \<open>
  C9. When both device lists are non-empty the GPU list wins: the context is the list
  of GPU devices built from \<^verbatim>\<open>use_gpus\<close>, and the instance is the one the same call
  with an empty CPU list constructs, so the CPU list is ignored.
\<close>

theorem gpus_take_precedence:
  assumes "use_gpus \<noteq> []" and "use_cpus \<noteq> []" and "env \<in> {Configured, ConfigIOError}"
  shows "\<exists>self. init env n_hidden n_embed in_dim layers classes pfile lrate optim mt
                   use_gpus use_cpus log_root log_cfg vb = Inr self
               \<and> ctx self = CtxList (map mx_gpu use_gpus)
               \<and> init env n_hidden n_embed in_dim layers classes pfile lrate optim mt
                   use_gpus [] log_root log_cfg vb = Inr self"
  using assms by (auto simp add: init_def)

theorem gpus_take_precedence_witness:
  "[0, 1] \<noteq> ([] :: int list) \<and> [2] \<noteq> ([] :: int list) \<and>
   (\<exists>self. init Configured 256 128 (Some 1000) 1 2 [] (1 / 10) ''sgd'' ''acc'' [0, 1] [2]
              ''logs/'' ''configs/logging.yaml'' False = Inr self
          \<and> ctx self = CtxList [mx_gpu 0, mx_gpu 1])"
  using gpus_take_precedence [of "[0, 1]" "[2]" Configured 256 128 "Some 1000" 1 2 "[]"
      "1 / 10" "''sgd''" "''acc''" "''logs/''" "''configs/logging.yaml''" False]
  by auto

subsection \<open>The symbol generator\<close>

text \<open>
  C4, as stated, fails: with \<^verbatim>\<open>lstm_layer = 0\<close> the graph still holds one recurrent
  cell, because \<^verbatim>\<open>lstm_1\<close> is built before the loop over the further layers.
\<close>

theorem sym_gen_zero_layers_counterexample:
  "lstm_layer (default_clf\<lparr>lstm_layer := 0\<rparr>) = 0 \<and>
   lstm_cells (fst (sym_gen (default_clf\<lparr>lstm_layer := 0\<rparr>) 50)) = [''lstm_1_'']"
  by (simp add: sym_gen_def Let_def py_range_def default_clf_def)

text \<open>
  C4, amended. For every hyperparameter set and sequence length the graph of
  \<^verbatim>\<open>_sym_gen\<close> holds exactly \<open>max 1 k\<close> stacked recurrent cells, where \<open>k\<close> is
  \<^verbatim>\<open>lstm_layer\<close>: exactly \<open>k\<close> cells for \<open>k \<ge> 1\<close>, and one cell for \<open>k \<le> 0\<close>.
\<close>

theorem sym_gen_cell_count:
  "length (lstm_cells (fst (sym_gen self seq_len))) = nat (max 1 (lstm_layer self))"
  by (simp add: sym_gen_def Let_def lstm_cells_fold py_range_def)

subsection \<open>initialize\<close>

text \<open>
  C6. Given an argument that is not a bucketing iterator, \<^verbatim>\<open>initialize\<close> raises the
  type error and leaves the instance exactly as it was: no module is constructed or
  bound, whatever the file system and the loader would have answered.
\<close>

theorem initialize_rejects_other_objects:
  "initialize file_exists load_raises self (Other_obj t) =
     (Inl (TypeError ''Data iterator for this model should be of type BucketSeqLabelIter.''),
      self)"
  by (simp add: initialize_def)

text \<open>
  C1, evaluated on the code. The parameters file exists and \<^verbatim>\<open>load_params\<close> raises
  \<^verbatim>\<open>ValueError\<close> or \<^verbatim>\<open>IOError\<close>: the call returns and the warning is logged, but
  the module receives only \<^verbatim>\<open>bind\<close>, \<^verbatim>\<open>load_params\<close> and \<^verbatim>\<open>init_optimizer\<close>.
  \<^verbatim>\<open>init_params\<close> is called on the path without a file only, so here the parameters
  are neither loaded nor freshly initialized.
\<close>

theorem initialize_load_failure_leaves_params_uninitialized:
  "initialize True (Some (ValueError msg)) self (BucketSeqLabelIter_obj it) =
     (Inr (),
      self\<lparr>logger := logger self @
                [(WARNING, ''Parameters file does not exist or not valid! please check the file.'')],
           model := Some \<lparr>m_default_bucket_key = default_bucket_key it, m_context = ctx self,
                          calls = [Bind (provide_data it) (provide_label it),
                                   LoadParams (params_file self),
                                   InitOptimizer (optimizer self)
                                     [(''learning_rate'', learning_rate self)]],
                          params = Uninitialized\<rparr>\<rparr>) \<and>
   initialize True (Some (IOError msg)) self (BucketSeqLabelIter_obj it) =
     initialize True (Some (ValueError msg)) self (BucketSeqLabelIter_obj it) \<and>
   params (the (model (snd (initialize False None self (BucketSeqLabelIter_obj it)))))
     = FreshlyInitialized"
  by (simp add: initialize_def BucketingModule_def invoke_def init_optimizer_def log_call_def)

subsection \<open>train_epochs\<close>

text \<open>
  C7. On an instance with a bound module, and for a number of epochs \<open>n \<ge> 0\<close>,
  \<^verbatim>\<open>train_epochs\<close> without evaluation data is the per-batch step run over the
  iterator's batches, in the iterator's order, \<open>n\<close> times over: \<open>n\<close> times the
  number of batches per epoch steps in all. It returns, the module receives the four
  calls of each step in that order, and it receives no call of its scoring routine.
\<close>

theorem train_epochs_steps:
  assumes "model self = Some m" and "0 \<le> n"
  shows "train_epochs self td None n = step_all self (concat (replicate (nat n) (batches td))) \<and>
         int (length (concat (replicate (nat n) (batches td)))) = n * int (length (batches td)) \<and>
         fst (train_epochs self td None n) = Inr () \<and>
         module_calls (snd (train_epochs self td None n)) =
           module_calls self @ concat (map (\<lambda>b. [Forward b None, GetOutputs, Backward, Update])
                                       (concat (replicate (nat n) (batches td)))) \<and>
         filter is_score (module_calls (snd (train_epochs self td None n))) =
           filter is_score (module_calls self)"
proof -
  let ?bs = "concat (replicate (nat n) (batches td))"
  have eq: "train_epochs self td None n = step_all self ?bs"
    by (simp add: train_epochs_def train_loop_without_eval length_py_range)
  have len: "int (length ?bs) = n * int (length (batches td))"
    using assms(2) by (simp add: length_concat sum_list_replicate)
  have mc: "module_calls self = calls m"
    using assms(1) by (simp add: module_calls_def)
  from step_all_bound [OF assms(1), of ?bs] show ?thesis
    by (simp add: eq len mc filter_score_steps)
qed

text \<open>Three epochs over the two batches of \<open>demo_iter\<close>: six steps and no scoring.\<close>

theorem train_epochs_steps_witness:
  "(0::int) \<le> 3 \<and>
   fst (train_epochs bound_clf demo_iter None 3) = Inr () \<and>
   length (concat (replicate (nat 3) (batches demo_iter))) = 6 \<and>
   length (module_calls (snd (train_epochs bound_clf demo_iter None 3))) = 3 + 4 * 6 \<and>
   filter is_score (module_calls (snd (train_epochs bound_clf demo_iter None 3))) = []"
proof -
  have le: "(0::int) \<le> 3" by simp
  note t = train_epochs_steps [OF model_bound_clf le, of demo_iter]
  from t have ok: "fst (train_epochs bound_clf demo_iter None 3) = Inr ()"
    by blast
  from t have cs: "module_calls (snd (train_epochs bound_clf demo_iter None 3)) =
      module_calls bound_clf @ concat (map (\<lambda>b. [Forward b None, GetOutputs, Backward, Update])
                                       (concat (replicate (nat 3) (batches demo_iter))))"
    by blast
  from t have sc: "filter is_score (module_calls (snd (train_epochs bound_clf demo_iter None 3))) =
      filter is_score (module_calls bound_clf)"
    by blast
  have n3: "nat 3 = Suc (Suc (Suc 0))" by simp
  have len: "length (module_calls (snd (train_epochs bound_clf demo_iter None 3))) = 3 + 4 * 6"
    unfolding cs n3 by (simp add: module_calls_def model_bound_clf demo_iter_def)
  have nosc: "filter is_score (module_calls (snd (train_epochs bound_clf demo_iter None 3))) = []"
    unfolding sc by (simp add: module_calls_def model_bound_clf)
  have six: "length (concat (replicate (nat 3) (batches demo_iter))) = 6"
    unfolding n3 by (simp add: demo_iter_def)
  from le ok six len nosc show ?thesis by blast
qed

subsection \<open>save\<close>

text \<open>
  C3, as stated, fails: an epoch of 0 is a given epoch value, yet \<^verbatim>\<open>if epoch:\<close>
  is false for it and the parameters go to the unchanged path, which does not end in
  \<^verbatim>\<open>-0\<close>.
\<close>

theorem save_epoch_zero_counterexample:
  "fst (save bound_clf ''out/lstm'' (Some 0)) = Inr () \<and>
   saved_paths (module_calls (snd (save bound_clf ''out/lstm'' (Some 0)))) = [''out/lstm'']"
  by (simp add: save_def Let_def module_calls_def model_bound_clf invoke_def log_call_def)

text \<open>
  C3, amended. On an instance with a bound module, for every path and every given
  epoch other than 0, \<^verbatim>\<open>save(path, epoch)\<close> returns and the module is asked to save
  to the path with \<^verbatim>\<open>-<epoch>\<close> appended; \<^verbatim>\<open>save(path)\<close> without an epoch returns
  and the module is asked to save to the path unchanged.
\<close>

theorem save_path:
  assumes "model self = Some m"
  shows "(e \<noteq> 0 \<longrightarrow>
            fst (save self path (Some e)) = Inr () \<and>
            saved_paths (module_calls (snd (save self path (Some e))))
              = saved_paths (module_calls self) @ [path @ ''-'' @ str_int e]) \<and>
         fst (save self path None) = Inr () \<and>
         saved_paths (module_calls (snd (save self path None)))
           = saved_paths (module_calls self) @ [path]"
  using assms
  by (simp add: save_def Let_def module_calls_def invoke_def log_call_def saved_paths_append)

text \<open>Epoch 5 gives a path ending in \<^verbatim>\<open>-5\<close>; no epoch gives the path itself.\<close>

theorem save_path_witness:
  "(5::int) \<noteq> 0 \<and>
   fst (save bound_clf ''out/lstm'' (Some 5)) = Inr () \<and>
   saved_paths (module_calls (snd (save bound_clf ''out/lstm'' (Some 5)))) = [''out/lstm-5''] \<and>
   saved_paths (module_calls (snd (save bound_clf ''out/lstm'' None))) = [''out/lstm'']"
  using save_path [OF model_bound_clf, of 5 "''out/lstm''"]
  by (simp add: module_calls_def model_bound_clf str_int_5)

subsection \<open>predict\<close>

text \<open>Facts about the scatter step and the loop over the batches.\<close>

lemma argmax_scan_replicate: "argmax_scan x p i (replicate n x) = p"
  by (induction n arbitrary: i) simp_all

lemma np_argmax_zeros: "0 < n \<Longrightarrow> np_argmax (replicate n x) = Inr 0"
  by (cases n) (simp_all add: np_argmax_def argmax_scan_replicate)

lemma np_argmax_nonempty: "row \<noteq> [] \<Longrightarrow> \<exists>a. np_argmax row = Inr a"
  by (cases row) (simp_all add: np_argmax_def)

lemma py_index_in_range: "0 \<le> i \<Longrightarrow> i < int n \<Longrightarrow> py_index n i = Inr (nat i)"
  by (simp add: py_index_def)

lemma assign_row_same_length: "length new = length old \<Longrightarrow> assign_row old new = Inr new"
  by (simp add: assign_row_def)

lemma scatter_append:
  "scatter acc (xs @ ys) =
     (case scatter acc xs of Inl e \<Rightarrow> Inl e | Inr acc' \<Rightarrow> scatter acc' ys)"
proof (induction xs arbitrary: acc)
  case Nil
  show ?case by simp
next
  case (Cons p xs)
  obtain labels scores where acc: "acc = (labels, scores)" by (cases acc)
  obtain logits idx where p: "p = (logits, idx)" by (cases p)
  show ?case
    by (simp add: acc p Cons.IH split: sum.splits)
qed

lemma predict_loop_bound:
  "predict_loop outputs (Some m) acc bs =
     scatter acc (concat (map (\<lambda>b. zip (outputs b) (label b)) bs))"
  by (induction bs arbitrary: acc) (simp_all add: scatter_append split: sum.splits)

lemma last_row_None: "last_row i pairs = None \<longleftrightarrow> i \<notin> snd ` set pairs"
  by (induction pairs) (auto split: option.splits)

lemma scatter_step:
  assumes "length labels = N" and "length scores = N" and "0 \<le> idx" and "idx < int N"
      and "length logits = length (scores ! nat idx)" and "np_argmax logits = Inr a"
  shows "scatter (labels, scores) ((logits, idx) # rest) =
           scatter (labels[nat idx := int a], scores[nat idx := logits]) rest"
  using assms by (simp add: py_index_in_range assign_row_same_length)

lemma scatter_wf:
  fixes scores :: "'a::linorder list list"
  assumes "0 < C"
  shows "length labels = N \<Longrightarrow> length scores = N \<Longrightarrow> \<forall>row\<in>set scores. length row = C \<Longrightarrow>
         \<forall>p\<in>set pairs. length (fst p) = C \<and> 0 \<le> snd p \<and> snd p < int N \<Longrightarrow>
         \<forall>i<N. \<exists>a. np_argmax (scores ! i) = Inr a \<and> labels ! i = int a \<Longrightarrow>
         \<exists>labels' scores'. scatter (labels, scores) pairs = Inr (labels', scores') \<and>
           length labels' = N \<and> length scores' = N \<and>
           (\<forall>i<N. \<exists>a. np_argmax (scores' ! i) = Inr a \<and> labels' ! i = int a) \<and>
           (\<forall>i<N. scores' ! i = (case last_row (int i) pairs of None \<Rightarrow> scores ! i | Some r \<Rightarrow> r)) \<and>
           (\<forall>i<N. last_row (int i) pairs = None \<longrightarrow> labels' ! i = labels ! i)"
proof (induction pairs arbitrary: labels scores)
  case Nil
  then show ?case by simp
next
  case (Cons p pairs)
  obtain logits idx where p: "p = (logits, idx)" by (cases p)
  from Cons.prems(4) p have lg: "length logits = C" and lo: "0 \<le> idx" and hi: "idx < int N"
    by auto
  let ?k = "nat idx"
  from lo hi have k: "?k < N" by simp
  from lg assms have "logits \<noteq> []" by auto
  then obtain a where a: "np_argmax logits = Inr a" using np_argmax_nonempty by blast
  from k Cons.prems(2,3) have "length (scores ! ?k) = C" by simp
  with lg have same: "length logits = length (scores ! ?k)" by simp
  let ?labels = "labels[?k := int a]" and ?scores = "scores[?k := logits]"
  have st: "scatter (labels, scores) (p # pairs) = scatter (?labels, ?scores) pairs"
    unfolding p by (rule scatter_step [OF Cons.prems(1,2) lo hi same a])
  have l1: "length ?labels = N" and l2: "length ?scores = N"
    using Cons.prems(1,2) by simp_all
  have rows: "\<forall>row\<in>set ?scores. length row = C"
    using Cons.prems(3) lg set_update_subset_insert [of scores ?k logits] by auto
  have rest: "\<forall>q\<in>set pairs. length (fst q) = C \<and> 0 \<le> snd q \<and> snd q < int N"
    using Cons.prems(4) by simp
  have inv: "\<forall>i<N. \<exists>b. np_argmax (?scores ! i) = Inr b \<and> ?labels ! i = int b"
  proof (intro allI impI)
    fix i assume i: "i < N"
    show "\<exists>b. np_argmax (?scores ! i) = Inr b \<and> ?labels ! i = int b"
    proof (cases "i = ?k")
      case True
      with k Cons.prems(1,2) a show ?thesis by simp
    next
      case False
      with i Cons.prems(5) show ?thesis by simp
    qed
  qed
  from Cons.IH [OF l1 l2 rows rest inv]
  obtain labels' scores' where
    r: "scatter (?labels, ?scores) pairs = Inr (labels', scores')" and
    n1: "length labels' = N" and n2: "length scores' = N" and
    i': "\<forall>i<N. \<exists>a. np_argmax (scores' ! i) = Inr a \<and> labels' ! i = int a" and
    c1: "\<forall>i<N. scores' ! i = (case last_row (int i) pairs of None \<Rightarrow> ?scores ! i | Some r \<Rightarrow> r)" and
    c2: "\<forall>i<N. last_row (int i) pairs = None \<longrightarrow> labels' ! i = ?labels ! i"
    by blast
  have d1: "\<forall>i<N. scores' ! i = (case last_row (int i) (p # pairs) of None \<Rightarrow> scores ! i | Some r \<Rightarrow> r)"
  proof (intro allI impI)
    fix i assume i: "i < N"
    show "scores' ! i = (case last_row (int i) (p # pairs) of None \<Rightarrow> scores ! i | Some r \<Rightarrow> r)"
    proof (cases "last_row (int i) pairs")
      case (Some r)
      with c1 i show ?thesis by (simp add: p)
    next
      case None
      show ?thesis
      proof (cases "idx = int i")
        case True
        with None c1 i Cons.prems(2) show ?thesis by (simp add: p)
      next
        case False
        with lo have "i \<noteq> ?k" by auto
        with False None c1 i show ?thesis by (simp add: p)
      qed
    qed
  qed
  have d2: "\<forall>i<N. last_row (int i) (p # pairs) = None \<longrightarrow> labels' ! i = labels ! i"
  proof (intro allI impI)
    fix i assume i: "i < N" and n: "last_row (int i) (p # pairs) = None"
    from n have n': "last_row (int i) pairs = None" and ne: "idx \<noteq> int i"
      by (auto simp add: p split: option.splits if_splits)
    from ne lo have "i \<noteq> ?k" by auto
    with c2 i n' show "labels' ! i = labels ! i" by simp
  qed
  from st r n1 n2 i' d1 d2 show ?case by auto
qed

lemma set_py_range: "set (py_range n) = {0..n - 1}"
  by (simp add: py_range_def)

lemma yielded_wf:
  assumes "regroups (py_range (int N)) it"
      and "list_all (\<lambda>b. list_all (\<lambda>row. length row = C) (outputs b)) (batches it)"
  shows "\<forall>p\<in>set (yielded outputs it). length (fst p) = C \<and> 0 \<le> snd p \<and> snd p < int N"
proof
  fix p assume "p \<in> set (yielded outputs it)"
  then obtain b where b: "b \<in> set (batches it)" and p: "p \<in> set (zip (outputs b) (label b))"
    by (auto simp add: yielded_def)
  obtain row idx where pq: "p = (row, idx)" by (cases p)
  from p have f: "fst p \<in> set (outputs b)" and s: "snd p \<in> set (label b)"
    unfolding pq by (auto dest: set_zip_leftD set_zip_rightD)
  from assms(2) b f have "length (fst p) = C" by (auto simp add: list_all_iff)
  moreover from assms(1) b s have "snd p \<in> {0..int N - 1}"
    by (auto simp add: regroups_def list_all_iff set_py_range)
  ultimately show "length (fst p) = C \<and> 0 \<le> snd p \<and> snd p < int N" by auto
qed

lemma predict_wf:
  fixes outputs :: "batch \<Rightarrow> ('a::{linorder,zero}) list list"
  assumes bound: "model self = Some m"
      and classes: "0 < num_classes self"
      and iter: "new_iter test_data (py_range (int (length test_data))) batch_size = Inr it"
      and contract: "regroups (py_range (int (length test_data))) it"
      and rows: "list_all (\<lambda>b. list_all (\<lambda>row. length row = nat (num_classes self)) (outputs b))
                   (batches it)"
  shows "\<exists>labels scores.
           predict outputs new_iter self test_data batch_size = Inr (labels, scores) \<and>
           length labels = length test_data \<and> length scores = length test_data \<and>
           (\<forall>i<length test_data. \<exists>a. np_argmax (scores ! i) = Inr a \<and> labels ! i = int a) \<and>
           (\<forall>i<length test_data.
              scores ! i = (case last_row (int i) (yielded outputs it) of
                              None \<Rightarrow> replicate (nat (num_classes self)) 0 | Some r \<Rightarrow> r)) \<and>
           (\<forall>i<length test_data.
              last_row (int i) (yielded outputs it) = None \<longrightarrow> labels ! i = 0)"
proof -
  let ?N = "length test_data" and ?C = "nat (num_classes self)"
  let ?labels = "replicate ?N (0::int)"
  let ?scores = "replicate ?N (replicate ?C (0::'a))"
  have C: "0 < ?C" using classes by simp
  have eq: "predict outputs new_iter self test_data batch_size =
              scatter (?labels, ?scores) (yielded outputs it)"
    using classes by (simp add: predict_def Let_def iter bound predict_loop_bound yielded_def)
  have inv0: "\<forall>i<?N. \<exists>a. np_argmax (?scores ! i) = Inr a \<and> ?labels ! i = int a"
    using C by (simp add: np_argmax_zeros)
  have rows0: "\<forall>row\<in>set ?scores. length row = ?C" by simp
  have l1: "length ?labels = ?N" and l2: "length ?scores = ?N" by simp_all
  from scatter_wf [OF C l1 l2 rows0 yielded_wf [OF contract rows] inv0]
  obtain labels scores where
    r: "scatter (?labels, ?scores) (yielded outputs it) = Inr (labels, scores)" and
    n1: "length labels = ?N" and n2: "length scores = ?N" and
    i': "\<forall>i<?N. \<exists>a. np_argmax (scores ! i) = Inr a \<and> labels ! i = int a" and
    c1: "\<forall>i<?N. scores ! i = (case last_row (int i) (yielded outputs it) of
                                 None \<Rightarrow> ?scores ! i | Some r \<Rightarrow> r)" and
    c2: "\<forall>i<?N. last_row (int i) (yielded outputs it) = None \<longrightarrow> labels ! i = ?labels ! i"
    by auto
  from c1 have c1': "\<forall>i<?N. scores ! i = (case last_row (int i) (yielded outputs it) of
                                 None \<Rightarrow> replicate ?C 0 | Some r \<Rightarrow> r)"
    by (simp split: option.splits)
  from c2 have c2': "\<forall>i<?N. last_row (int i) (yielded outputs it) = None \<longrightarrow> labels ! i = 0"
    by simp
  from eq r n1 n2 i' c1' c2' show ?thesis by auto
qed

text \<open>Facts about the concrete instances.\<close>

lemma num_classes_bound_clf: "num_classes bound_clf = 2"
  by (simp add: bound_clf_def initialize_def default_clf_def demo_iter_def
      BucketingModule_def invoke_def init_optimizer_def log_call_def)

lemma py_range_4: "py_range (int (length demo_data)) = [0, 1, 2, 3]"
  by (simp add: py_range_def demo_data_def upto.simps)




lemma regroups_short_iter: "regroups (py_range (int (length demo_data))) short_iter"
  by (simp add: py_range_4 regroups_def demo_iter_def short_iter_def)

lemma short_rows:
  "list_all (\<lambda>b. list_all (\<lambda>row. length row = nat (num_classes bound_clf)) (demo_outputs b))
     (batches short_iter)"
  by (simp add: num_classes_bound_clf demo_iter_def demo_outputs_def short_iter_def)

lemma yielded_short: "yielded demo_outputs short_iter = [([24, 10], 2), ([9, 10], 0)]"
  by (simp add: yielded_def short_iter_def demo_iter_def demo_outputs_def)



text \<open>
  C10. Under the same conditions, a position whose identifier no batch carries keeps
  what \<^verbatim>\<open>np.zeros\<close> put there: \<^verbatim>\<open>predict\<close> returns, the label at that position is 0
  and its score row is all zeros.
\<close>

theorem predict_unyielded_stay_zero:
  fixes outputs :: "batch \<Rightarrow> ('a::{linorder,zero}) list list"
  assumes "model self = Some m"
      and "0 < num_classes self"
      and "new_iter test_data (py_range (int (length test_data))) batch_size = Inr it"
      and "regroups (py_range (int (length test_data))) it"
      and "list_all (\<lambda>b. list_all (\<lambda>row. length row = nat (num_classes self)) (outputs b))
             (batches it)"
      and "i < length test_data"
      and "int i \<notin> snd ` set (yielded outputs it)"
  shows "\<exists>labels scores.
           predict outputs new_iter self test_data batch_size = Inr (labels, scores) \<and>
           labels ! i = 0 \<and> scores ! i = replicate (nat (num_classes self)) 0"
proof -
  from assms(7) have none: "last_row (int i) (yielded outputs it) = None"
    by (simp add: last_row_None)
  from predict_wf [where outputs = outputs and new_iter = new_iter, OF assms(1-5)] obtain labels scores where
    r: "predict outputs new_iter self test_data batch_size = Inr (labels, scores)" and
    c: "\<forall>i<length test_data.
              scores ! i = (case last_row (int i) (yielded outputs it) of
                              None \<Rightarrow> replicate (nat (num_classes self)) 0 | Some r \<Rightarrow> r)" and
    l: "\<forall>i<length test_data. last_row (int i) (yielded outputs it) = None \<longrightarrow> labels ! i = 0"
    by blast
  from c l assms(6) none have "labels ! i = 0 \<and> scores ! i = replicate (nat (num_classes self)) 0"
    by simp
  with r show ?thesis by blast
qed

text \<open>\<open>short_iter\<close> yields the identifiers 2 and 0 only; position 1 stays zero.\<close>

theorem predict_unyielded_stay_zero_witness:
  "(1::nat) < length demo_data \<and> int 1 \<notin> snd ` set (yielded demo_outputs short_iter) \<and>
   (\<exists>labels scores.
      predict demo_outputs (\<lambda>_ _ _. Inr short_iter) bound_clf demo_data 2 = Inr (labels, scores) \<and>
      labels ! 1 = 0 \<and> scores ! 1 = [0, 0])"
proof -
  have h2: "0 < num_classes bound_clf" by (simp add: num_classes_bound_clf)
  have h3: "(\<lambda>_ _ _. Inr short_iter) demo_data (py_range (int (length demo_data))) (2::int) = Inr short_iter"
    by simp
  have h6: "(1::nat) < length demo_data" by (simp add: demo_data_def)
  have h7: "int 1 \<notin> snd ` set (yielded demo_outputs short_iter)" by (simp add: yielded_short)
  from predict_unyielded_stay_zero [where outputs = demo_outputs
      and new_iter = "\<lambda>_ _ _. Inr short_iter", OF model_bound_clf h2 h3 regroups_short_iter short_rows h6 h7]
  have "\<exists>labels scores.
      predict demo_outputs (\<lambda>_ _ _. Inr short_iter) bound_clf demo_data 2 = Inr (labels, scores) \<and>
      labels ! 1 = 0 \<and> scores ! 1 = [0, 0]"
    by (simp add: num_classes_bound_clf numeral_2_eq_2)
  with h6 h7 show ?thesis by blast
qed

end
